theory Spec2Isabelle
  imports Main "HOL-Library.Word" "HOL-Library.Sublist"
begin

section \<open>JavaScript strings and numbers\<close>

text \<open>
  The dashboard widget \<^verbatim>\<open>static/wpbot.js\<close> builds HTML by string templates. A
  JavaScript string is a sequence of UTF-16 code units, and the regular expression of
  \<^verbatim>\<open>cssSafe\<close> (no \<^verbatim>\<open>u\<close> flag) works on code units, so a string is modelled as
  a list of 16-bit words. \<open>ascii\<close> embeds the ASCII part of a template; the few
  non-ASCII characters of the templates are written as their code units.
\<close>

type_synonym jschar = "16 word"
type_synonym jsstr = "jschar list"

definition ascii :: "string \<Rightarrow> jsstr" where
  "ascii s = map of_char s"

text \<open>
  Interpolating a number into a template prints it in decimal. The model prints
  mathematical integers; it agrees with JavaScript's number-to-string conversion on the
  integers a double holds exactly and prints without an exponent (magnitude below
  \<open>2^53\<close>), which covers list indices, HTTP status codes and process ids.
\<close>

fun show_nat :: "nat \<Rightarrow> jsstr" where
  "show_nat n =
     (if n < 10 then [of_nat (48 + n)]
      else show_nat (n div 10) @ [of_nat (48 + n mod 10)])"

declare show_nat.simps [simp del]

definition show_int :: "int \<Rightarrow> jsstr" where
  "show_int i = (if i < 0 then ascii ''-'' @ show_nat (nat (- i)) else show_nat (nat i))"

section \<open>Sanitising a profile key: \<^verbatim>\<open>cssSafe\<close>\<close>

text \<open>
  \<^verbatim>\<open>function cssSafe(s) { return String(s).replace(/[^a-zA-Z0-9_-]/g, "_"); }\<close>

  \<open>safe_char\<close> is the character class \<^verbatim>\<open>[a-zA-Z0-9_-]\<close>; every code unit outside
  it is replaced by an underscore (\<open>0x5F\<close>). The argument is a string in every call of
  the program, so \<^verbatim>\<open>String(s)\<close> is the identity.
\<close>

definition safe_char :: "jschar \<Rightarrow> bool" where
  "safe_char c \<longleftrightarrow>
     (0x61 \<le> c \<and> c \<le> 0x7A) \<or> (0x41 \<le> c \<and> c \<le> 0x5A) \<or>
     (0x30 \<le> c \<and> c \<le> 0x39) \<or> c = 0x5F \<or> c = 0x2D"

definition cssSafe :: "jsstr \<Rightarrow> jsstr" where
  "cssSafe s = map (\<lambda>c. if safe_char c then c else 0x5F) s"

section \<open>The metrics snapshot\<close>

text \<open>
  The JSON object of one poll, with the fields the renderer reads. A field the code
  guards with \<^verbatim>\<open>||\<close>, \<^verbatim>\<open>?:\<close> or \<^verbatim>\<open>!\<close> may be absent (\<open>None\<close>); the
  readiness flags are booleans, so \<^verbatim>\<open>!!x\<close> is the identity on them.
\<close>

record window =
  w_title :: "jsstr option"
  w_url :: "jsstr option"
  w_wa_ready :: bool
  w_last_seen :: "jsstr option"

record profile =
  p_key :: jsstr
  p_ready :: bool
  p_path :: "jsstr option"
  p_pid :: "int option"
  p_last_seen :: "jsstr option"
  p_windows :: "window list option"

record snapshot =
  wa_ready :: bool
  prof_ready :: int
  prof_total :: int
  queued_jobs :: int
  running_jobs :: int
  pending_targets :: int
  profiles :: "profile list option"

text \<open>
  \<^verbatim>\<open>v || d\<close> inside a template: an absent value and the falsy values (the empty
  string, the number \<open>0\<close>) give the default \<open>d\<close>, anything else is printed.
\<close>

definition or_str :: "jsstr option \<Rightarrow> jsstr \<Rightarrow> jsstr" where
  "or_str v d = (case v of None \<Rightarrow> d | Some s \<Rightarrow> if s = [] then d else s)"

definition or_num :: "int option \<Rightarrow> jsstr \<Rightarrow> jsstr" where
  "or_num v d = (case v of None \<Rightarrow> d | Some n \<Rightarrow> if n = 0 then d else show_int n)"

section \<open>The renderer\<close>

definition statusBadge :: "bool \<Rightarrow> jsstr" where
  \<open>statusBadge ok =
     (let cls = (if ok then ascii ''ok'' else ascii ''warn'');
          icon = (if ok then [0x2705] else [0x23F3])
      in icon @ ascii '' <span class="'' @ cls @ ascii ''">''
         @ (if ok then ascii ''true'' else ascii ''false'') @ ascii ''</span>'')\<close>

subsection \<open>Windows of a profile: \<^verbatim>\<open>renderWindowsHTML\<close>\<close>

text \<open>
  \<open>windowLabel\<close> is the expression \<^verbatim>\<open>w.title || ('Window ' + (idx+1))\<close>,
  \<open>windowTitle\<close> and \<open>windowMeta\<close> are the constants \<^verbatim>\<open>title\<close> and \<^verbatim>\<open>meta\<close>
  of the loop body, and \<open>windowItem\<close> is the text one iteration appends to
  \<^verbatim>\<open>html\<close>; \<open>idx\<close> is the 0-based index \<^verbatim>\<open>forEach\<close> passes.
\<close>

definition windowLabel :: "nat \<Rightarrow> window \<Rightarrow> jsstr" where
  "windowLabel idx w = or_str (w_title w) (ascii ''Window '' @ show_nat (idx + 1))"

definition windowTitle :: "nat \<Rightarrow> window \<Rightarrow> jsstr" where
  \<open>windowTitle idx w =
     ascii ''\<newline>''
     @ ascii ''        <div class="acc-title">\<newline>''
     @ ascii ''          <span class="dot ''
     @ (if w_wa_ready w then ascii ''ok'' else ascii ''warn'')
     @ ascii ''"></span>\<newline>''
     @ ascii ''          <span>''
     @ windowLabel idx w
     @ ascii ''</span>\<newline>''
     @ ascii ''        </div>''\<close>

definition windowMeta :: "window \<Rightarrow> jsstr" where
  \<open>windowMeta w =
     (case w_url w of
        None \<Rightarrow> ascii ''<div class="acc-meta"></div>''
      | Some u \<Rightarrow>
          if u = [] then ascii ''<div class="acc-meta"></div>''
          else ascii ''<div class="acc-meta"><code>'' @ u @ ascii ''</code></div>'')\<close>

definition windowItem :: "nat \<Rightarrow> window \<Rightarrow> jsstr" where
  \<open>windowItem idx w =
     ascii ''\<newline>''
     @ ascii ''        <div class="acc-item">\<newline>''
     @ ascii ''          <div class="acc-header">''
     @ windowTitle idx w
     @ windowMeta w
     @ ascii ''</div>\<newline>''
     @ ascii ''          <div class="acc-body">\<newline>''
     @ ascii ''            <div class="kv">\<newline>''
     @ ascii ''              <div>WA Ready</div><div>''
     @ statusBadge (w_wa_ready w)
     @ ascii ''</div>\<newline>''
     @ ascii ''              <div>Title</div><div>''
     @ or_str (w_title w) (ascii ''-'')
     @ ascii ''</div>\<newline>''
     @ ascii ''              <div>URL</div><div>''
     @ or_str (w_url w) (ascii ''-'')
     @ ascii ''</div>\<newline>''
     @ ascii ''              <div>Last Seen</div><div>''
     @ or_str (w_last_seen w) (ascii ''-'')
     @ ascii ''</div>\<newline>''
     @ ascii ''            </div>\<newline>''
     @ ascii ''          </div>\<newline>''
     @ ascii ''        </div>''\<close>

definition noWindowsHint :: jsstr where
  \<open>noWindowsHint =
     ascii ''<div class="hint">Bu profil i'' @ [0xE7]
     @ ascii ''in pencere/sekme verisi yok.</div>''\<close>

definition renderWindowsHTML :: "window list option \<Rightarrow> jsstr" where
  \<open>renderWindowsHTML windows =
     (case windows of
        None \<Rightarrow> noWindowsHint
      | Some ws \<Rightarrow>
          if ws = [] then noWindowsHint
          else foldl (\<lambda>html (idx, w). html @ windowItem idx w)
                 (ascii ''<div class="accordion nested">'') (enumerate 0 ws)
               @ ascii ''</div>'')\<close>

subsection \<open>The detail body of a profile: \<^verbatim>\<open>buildProfileBodyHTML\<close>\<close>

definition buildProfileBodyHTML :: "profile \<Rightarrow> jsstr" where
  \<open>buildProfileBodyHTML p =
     ascii ''\<newline>''
     @ ascii ''      <div class="kv">\<newline>''
     @ ascii ''        <div>Ready</div><div>''
     @ statusBadge (p_ready p)
     @ ascii ''</div>\<newline>''
     @ ascii ''        <div>Path</div><div>''
     @ or_str (p_path p) (ascii ''-'')
     @ ascii ''</div>\<newline>''
     @ ascii ''        <div>PID</div><div>''
     @ or_num (p_pid p) (ascii ''-'')
     @ ascii ''</div>\<newline>''
     @ ascii ''        <div>Last Seen</div><div>''
     @ or_str (p_last_seen p) (ascii ''-'')
     @ ascii ''</div>\<newline>''
     @ ascii ''      </div>\<newline>''
     @ ascii ''      <div style="margin-top:8px;font-weight:600;">Windows / Tabs</div>\<newline>''
     @ ascii ''      ''
     @ renderWindowsHTML (p_windows p)
     @ ascii ''\<newline>''
     @ ascii ''    ''\<close>

subsection \<open>The profiles panel: \<^verbatim>\<open>buildProfilesPanelHTML\<close>\<close>

text \<open>
  \<open>profileItemHTML\<close> is the text one iteration of the loop appends; \<open>profilesOf\<close> is
  \<^verbatim>\<open>data.profiles || []\<close>.
\<close>

definition profilesOf :: "snapshot \<Rightarrow> profile list" where
  "profilesOf data = (case profiles data of None \<Rightarrow> [] | Some ps \<Rightarrow> ps)"

definition noProfilesHint :: jsstr where
  \<open>noProfilesHint = ascii ''<div class="hint">Hi'' @ [0xE7] @ ascii '' profil yok.</div>''\<close>

definition profileItemHTML :: "profile \<Rightarrow> jsstr" where
  \<open>profileItemHTML p =
     ascii ''\<newline>''
     @ ascii ''        <div class="profile-item">\<newline>''
     @ ascii ''          <div class="profile-summary" data-key="''
     @ p_key p
     @ ascii ''">\<newline>''
     @ ascii ''            <div class="profile-left">\<newline>''
     @ ascii ''              <span class="dot ''
     @ (if p_ready p then ascii ''ok'' else ascii ''warn'')
     @ ascii ''"></span>\<newline>''
     @ ascii ''              <span>''
     @ p_key p
     @ ascii ''</span>\<newline>''
     @ ascii ''            </div>\<newline>''
     @ ascii ''            <div class="profile-right">''
     @ (if p_ready p then ascii ''ready'' else ascii ''not ready'')
     @ ascii ''</div>\<newline>''
     @ ascii ''          </div>\<newline>''
     @ ascii ''          <div class="details-body hidden" id="body-''
     @ cssSafe (p_key p)
     @ ascii ''"></div>\<newline>''
     @ ascii ''        </div>\<newline>''
     @ ascii ''      ''\<close>

definition buildProfilesPanelHTML :: "snapshot \<Rightarrow> jsstr" where
  "buildProfilesPanelHTML data =
     (let ps = profilesOf data
      in if ps = [] then noProfilesHint
         else foldl (\<lambda>html p. html @ profileItemHTML p) [] ps)"

subsection \<open>The summary card: \<^verbatim>\<open>renderSummaryMonoBox\<close>\<close>

definition renderSummaryMonoBox :: "snapshot \<Rightarrow> jsstr" where
  \<open>renderSummaryMonoBox data =
     (let readyStr = show_int (prof_ready data) @ ascii ''/'' @ show_int (prof_total data)
                     @ ascii '' ready'';
          kv = ascii ''\<newline>''
            @ ascii ''      <div class="mono-kv">\<newline>''
            @ ascii ''        <div>WhatsApp Ready</div><div>''
            @ (if wa_ready data then [0x2705] @ ascii '' true'' else [0x23F3] @ ascii '' false'')
            @ ascii ''</div>\<newline>''
            @ ascii ''        <div>Profiles</div><div>''
            @ readyStr
            @ ascii ''</div>\<newline>''
            @ ascii ''        <div>Queued Jobs</div><div>''
            @ show_int (queued_jobs data)
            @ ascii ''</div>\<newline>''
            @ ascii ''        <div>Running Jobs</div><div>''
            @ show_int (running_jobs data)
            @ ascii ''</div>\<newline>''
            @ ascii ''        <div>Pending Targets</div><div>''
            @ show_int (pending_targets data)
            @ ascii ''</div>\<newline>''
            @ ascii ''      </div>\<newline>''
            @ ascii ''    ''
      in ascii ''\<newline>''
         @ ascii ''      <div class="mono-card">\<newline>''
         @ ascii ''        <div class="mono-header">\<newline>''
         @ ascii ''          <div class="mono-title">Aktif WP / Toplam Profil</div>\<newline>''
         @ ascii ''          <div class="mono-right">''
         @ readyStr
         @ ascii ''</div>\<newline>''
         @ ascii ''        </div>\<newline>''
         @ ascii ''        <div class="mono-divider"></div>\<newline>''
         @ ascii ''        ''
         @ kv
         @ ascii ''\<newline>''
         @ ascii ''        <div class="mono-footer">\<newline>''
         @ ascii ''          <button id="profilesToggle" class="btn">Profilleri G''
         @ [0xF6] @ ascii ''ster '' @ [0x25BE]
         @ ascii ''</button>\<newline>''
         @ ascii ''        </div>\<newline>''
         @ ascii ''        <div id="profiles-panel" class="profiles-panel hidden"></div>\<newline>''
         @ ascii ''      </div>\<newline>''
         @ ascii ''    '')\<close>

section \<open>The profiles panel in the DOM\<close>

text \<open>
  \<^verbatim>\<open>panel.innerHTML = buildProfilesPanelHTML(data)\<close> hands the markup to the
  browser's HTML parser. The click handlers then use four things of the parsed panel:
  the \<^verbatim>\<open>data-key\<close> attribute of each \<^verbatim>\<open>.profile-summary\<close> row, and the
  \<^verbatim>\<open>id\<close>, the class list and the \<^verbatim>\<open>innerHTML\<close> of each \<^verbatim>\<open>.details-body\<close>.
  The panel is therefore modelled as the list of its profile items in document order,
  each with these four attributes. \<open>body_html\<close> holds the string last assigned to
  \<^verbatim>\<open>innerHTML\<close> (initially empty), and \<open>body_builds\<close> is a ghost counter of the
  assignments to \<^verbatim>\<open>innerHTML\<close> of that body; the program never reads it.

  \<open>mountItem\<close> is the item the parser creates for one iteration of the template of
  \<open>profileItemHTML\<close>. This is what the browser builds when the key is
  \<open>html_inert\<close>, that is, contains no character the HTML tokenizer treats specially
  inside the double-quoted attribute or the text of the \<^verbatim>\<open>span\<close> (NUL, carriage
  return, the double quote, the ampersand, the less-than sign): the keys are interpolated
  without escaping, and a key with such a character changes the parsed tree in ways the
  model does not follow. For the same reason the elements inside a built detail body are
  not tracked as targets of \<^verbatim>\<open>querySelector\<close>: the template of
  \<open>buildProfileBodyHTML\<close> has no \<^verbatim>\<open>id\<close> attribute. Ids are compared exactly
  (a document in standards mode).
\<close>

record item =
  row_key :: jsstr
  body_id :: jsstr
  body_classes :: "jsstr list"
  body_html :: jsstr
  body_builds :: nat


definition mountItem :: "profile \<Rightarrow> item" where
  "mountItem p =
     \<lparr>row_key = p_key p,
      body_id = ascii ''body-'' @ cssSafe (p_key p),
      body_classes = [ascii ''details-body'', ascii ''hidden''],
      body_html = [],
      body_builds = 0\<rparr>"

definition mountPanel :: "snapshot \<Rightarrow> item list" where
  "mountPanel data = map mountItem (profilesOf data)"

text \<open>
  \<^verbatim>\<open>container.querySelector('#body-...')\<close>: the first element of the panel, in
  document order, with that id; \<open>None\<close> is JavaScript's \<^verbatim>\<open>null\<close>.
\<close>

fun first_index :: "('a \<Rightarrow> bool) \<Rightarrow> 'a list \<Rightarrow> nat option" where
  "first_index P [] = None"
| "first_index P (x # xs) = (if P x then Some 0 else map_option Suc (first_index P xs))"

definition querySelectorId :: "item list \<Rightarrow> jsstr \<Rightarrow> nat option" where
  "querySelectorId container ident = first_index (\<lambda>it. body_id it = ident) container"

text \<open>
  \<^verbatim>\<open>String.prototype.trim\<close> removes white space and line terminators from both ends.
\<close>

definition js_space :: "jschar \<Rightarrow> bool" where
  "js_space c \<longleftrightarrow>
     c = 0x09 \<or> c = 0x0A \<or> c = 0x0B \<or> c = 0x0C \<or> c = 0x0D \<or> c = 0x20 \<or> c = 0xA0 \<or>
     c = 0x1680 \<or> (0x2000 \<le> c \<and> c \<le> 0x200A) \<or> c = 0x2028 \<or> c = 0x2029 \<or>
     c = 0x202F \<or> c = 0x205F \<or> c = 0x3000 \<or> c = 0xFEFF"

definition trim :: "jsstr \<Rightarrow> jsstr" where
  "trim s = rev (dropWhile js_space (rev (dropWhile js_space s)))"

text \<open>\<^verbatim>\<open>classList.toggle(tok)\<close>: remove the token when present, append it otherwise.\<close>

definition classList_toggle :: "jsstr \<Rightarrow> jsstr list \<Rightarrow> jsstr list" where
  "classList_toggle tok cls = (if tok \<in> set cls then removeAll tok cls else cls @ [tok])"


subsection \<open>The click handler of a profile row: \<^verbatim>\<open>attachProfileToggles\<close>\<close>

text \<open>
  \<open>rowHandler data key container\<close> is the body of the listener of a row whose
  \<^verbatim>\<open>data-key\<close> attribute is \<open>key\<close>: it returns the panel after the click. The two
  early returns of the source are the two \<open>None\<close> branches.
\<close>

definition rowHandler :: "snapshot \<Rightarrow> jsstr \<Rightarrow> item list \<Rightarrow> item list" where
  "rowHandler data key container =
     (case querySelectorId container (ascii ''body-'' @ cssSafe key) of
        None \<Rightarrow> container
      | Some j \<Rightarrow>
          (case find (\<lambda>p. p_key p = key) (profilesOf data) of
             None \<Rightarrow> container
           | Some prof \<Rightarrow>
               let body = container ! j;
                   needBuild = (trim (body_html body) = []);
                   body1 = (if needBuild
                            then body\<lparr>body_html := buildProfileBodyHTML prof,
                                      body_builds := body_builds body + 1\<rparr>
                            else body);
                   body2 = body1\<lparr>body_classes :=
                                    classList_toggle (ascii ''hidden'') (body_classes body1)\<rparr>
               in container[j := body2]))"

text \<open>
  A click on the \<open>i\<close>-th row of the panel runs the listener attached to that row; the
  listener reads the row's \<^verbatim>\<open>data-key\<close>. A panel has no row beyond its length, so
  such a click changes nothing. \<open>clicks\<close> runs a sequence of clicks, first to last.
\<close>

definition clickRow :: "snapshot \<Rightarrow> nat \<Rightarrow> item list \<Rightarrow> item list" where
  "clickRow data i container =
     (if i < length container then rowHandler data (row_key (container ! i)) container
      else container)"

definition clicks :: "snapshot \<Rightarrow> nat list \<Rightarrow> item list \<Rightarrow> item list" where
  "clicks data cs container = fold (clickRow data) cs container"

subsection \<open>The dashboard: \<^verbatim>\<open>renderAll\<close>\<close>

text \<open>
  \<^verbatim>\<open>renderAll\<close> builds a wrapper from the summary card, whose profiles panel is empty
  and hidden, and makes it the only child of the live region. The listener of the button
  builds the panel on the first reveal (the flag \<^verbatim>\<open>panelBuilt\<close>) and then only
  toggles its visibility and the button's text.
\<close>

record dashboard =
  dash_data :: snapshot
  card_html :: jsstr
  panel_classes :: "jsstr list"
  panel_html :: jsstr
  panel_items :: "item list"
  panelBuilt :: bool
  btn_text :: jsstr

definition newDashboard :: "snapshot \<Rightarrow> dashboard" where
  "newDashboard data =
     \<lparr>dash_data = data,
      card_html = renderSummaryMonoBox data,
      panel_classes = [ascii ''profiles-panel'', ascii ''hidden''],
      panel_html = [],
      panel_items = [],
      panelBuilt = False,
      btn_text = ascii ''Profilleri G'' @ [0xF6] @ ascii ''ster '' @ [0x25BE]\<rparr>"

definition onToggleClick :: "dashboard \<Rightarrow> dashboard" where
  "onToggleClick d =
     (let hidden = (ascii ''hidden'' \<in> set (panel_classes d));
          d1 = (if hidden \<and> \<not> panelBuilt d
                then d\<lparr>panel_html := buildProfilesPanelHTML (dash_data d),
                       panel_items := mountPanel (dash_data d),
                       panelBuilt := True\<rparr>
                else d);
          d2 = d1\<lparr>panel_classes := classList_toggle (ascii ''hidden'') (panel_classes d1)\<rparr>
      in d2\<lparr>btn_text :=
               (if ascii ''hidden'' \<in> set (panel_classes d2)
                then ascii ''Profilleri G'' @ [0xF6] @ ascii ''ster '' @ [0x25BE]
                else ascii ''Profilleri Gizle '' @ [0x25B4])\<rparr>)"

definition onRowClick :: "nat \<Rightarrow> dashboard \<Rightarrow> dashboard" where
  "onRowClick i d = d\<lparr>panel_items := clickRow (dash_data d) i (panel_items d)\<rparr>"

section \<open>The poller: \<^verbatim>\<open>fetchAndRender\<close>\<close>

text \<open>
  The live region \<^verbatim>\<open>#live-metrics\<close> is taken to exist when the script runs (it is
  looked up once, without a check). It holds either markup assigned through
  \<^verbatim>\<open>innerHTML\<close> (the page's initial content, or the error hint) or the dashboard
  that \<^verbatim>\<open>renderAll\<close> appended after clearing it.
\<close>

datatype live = LiveHTML jsstr | LiveDashboard dashboard

definition renderAll :: "snapshot \<Rightarrow> live" where
  "renderAll data = LiveDashboard (newDashboard data)"

text \<open>
  What a poll cycle can meet. \<^verbatim>\<open>fetch\<close> rejects with an error object (a network
  failure) or resolves with a response; \<^verbatim>\<open>res.ok\<close> is true exactly for a status
  from 200 to 299 (the Fetch standard); \<^verbatim>\<open>res.json()\<close> rejects with an error
  object or resolves with the parsed snapshot. An error object has a name and a message,
  and \<open>error_toString\<close> is \<^verbatim>\<open>Error.prototype.toString\<close>.
\<close>

datatype js_error = JsError (err_name: jsstr) (err_message: jsstr)

definition error_toString :: "js_error \<Rightarrow> jsstr" where
  "error_toString e =
     (if err_name e = [] then err_message e
      else if err_message e = [] then err_name e
      else err_name e @ ascii '': '' @ err_message e)"

record response =
  status :: nat
  json :: "js_error + snapshot"

definition res_ok :: "response \<Rightarrow> bool" where
  "res_ok res \<longleftrightarrow> 200 \<le> status res \<and> status res \<le> 299"

datatype fetch_outcome = FetchRejected js_error | FetchResolved response

text \<open>
  \<open>try_block\<close> is the \<^verbatim>\<open>try\<close> part up to the call of \<^verbatim>\<open>renderAll\<close>: \<open>Inl e\<close>
  when \<open>e\<close> is thrown and control passes to \<^verbatim>\<open>catch\<close> (the failure path), \<open>Inr data\<close>
  when \<^verbatim>\<open>renderAll(data)\<close> is called (the render path). On a snapshot of the
  types above \<^verbatim>\<open>renderAll\<close> does not throw.
\<close>

definition try_block :: "fetch_outcome \<Rightarrow> js_error + snapshot" where
  "try_block outcome =
     (case outcome of
        FetchRejected e \<Rightarrow> Inl e
      | FetchResolved res \<Rightarrow>
          if \<not> res_ok res
          then Inl (JsError (ascii ''Error'') (ascii ''HTTP '' @ show_nat (status res)))
          else (case json res of Inl e \<Rightarrow> Inl e | Inr data \<Rightarrow> Inr data))"

text \<open>\<^verbatim>\<open>String(e.message || e)\<close> and the markup of the \<^verbatim>\<open>catch\<close> part.\<close>

definition error_text :: "js_error \<Rightarrow> jsstr" where
  "error_text e = (if err_message e = [] then error_toString e else err_message e)"

definition errorHint :: "js_error \<Rightarrow> jsstr" where
  \<open>errorHint e =
     ascii ''<div class="hint">Metrikler al'' @ [0x131] @ ascii ''namad'' @ [0x131]
     @ ascii '': '' @ error_text e @ ascii ''</div>''\<close>

text \<open>
  The state of the module: the constant \<^verbatim>\<open>METRICS_URL\<close>, computed when the script
  starts, and the live region. \<open>window_WPBOT\<close> is the global \<^verbatim>\<open>window.WPBOT\<close>:
  absent, or an object whose property \<^verbatim>\<open>METRICS_URL\<close> may be absent.
\<close>

record module =
  METRICS_URL :: jsstr
  liveEl :: live

datatype wpbot = WPBOT (cfg_METRICS_URL: "jsstr option")

definition metricsUrl :: "wpbot option \<Rightarrow> jsstr" where
  "metricsUrl window_WPBOT =
     (case window_WPBOT of
        None \<Rightarrow> ascii ''/metrics''
      | Some cfg \<Rightarrow> or_str (cfg_METRICS_URL cfg) (ascii ''/metrics''))"

definition startup :: "wpbot option \<Rightarrow> live \<Rightarrow> module" where
  "startup window_WPBOT page = \<lparr>METRICS_URL = metricsUrl window_WPBOT, liveEl = page\<rparr>"

definition fetchAndRender :: "module \<Rightarrow> fetch_outcome \<Rightarrow> module" where
  "fetchAndRender m outcome =
     (case try_block outcome of
        Inr data \<Rightarrow> m\<lparr>liveEl := renderAll data\<rparr>
      | Inl e \<Rightarrow> m\<lparr>liveEl := LiveHTML (errorHint e)\<rparr>)"

text \<open>
  A run of the poller: each cycle requests \<^verbatim>\<open>METRICS_URL\<close> and then meets an
  outcome. \<open>polls\<close> returns the URLs requested, in order, and the final state.
\<close>

fun polls :: "module \<Rightarrow> fetch_outcome list \<Rightarrow> jsstr list \<times> module" where
  "polls m [] = ([], m)"
| "polls m (outcome # rest) =
     (let (urls, m') = polls (fetchAndRender m outcome) rest
      in (METRICS_URL m # urls, m'))"

section \<open>Auxiliary facts\<close>

subsection \<open>Strings and lists\<close>

lemma safe_char_underscore: "safe_char 0x5F"
  by (simp add: safe_char_def)

lemma cssSafe_all_safe: "list_all safe_char (cssSafe s)"
  by (induction s) (simp_all add: cssSafe_def safe_char_underscore)

lemma cssSafe_fixes_safe: "list_all safe_char s \<Longrightarrow> cssSafe s = s"
  by (induction s) (simp_all add: cssSafe_def)

lemma cssSafe_length: "length (cssSafe s) = length s"
  by (simp add: cssSafe_def)

lemma foldl_pair_append_concat:
  "foldl (\<lambda>html (idx, w). html @ g idx w) acc xs = acc @ concat (map (\<lambda>(idx, w). g idx w) xs)"
  by (induction xs arbitrary: acc) auto

lemma sublist_concat_member:
  "x \<in> set xs \<Longrightarrow> sublist (f x) (concat (map f xs))"
proof -
  assume "x \<in> set xs"
  then obtain ys zs where "xs = ys @ x # zs" by (auto simp: in_set_conv_decomp)
  then show ?thesis by simp
qed

lemma show_nat_1: "show_nat 1 = ascii ''1''"
  by (simp add: show_nat.simps ascii_def)

lemma show_nat_404: "show_nat 404 = ascii ''404''"
  by (simp add: show_nat.simps ascii_def)

lemma show_nat_500: "show_nat 500 = ascii ''500''"
  by (simp add: show_nat.simps ascii_def)

lemma first_index_Some_iff:
  "first_index P xs = Some i \<longleftrightarrow> i < length xs \<and> P (xs ! i) \<and> (\<forall>k<i. \<not> P (xs ! k))"
proof (induction xs arbitrary: i)
  case Nil
  then show ?case by simp
next
  case (Cons x xs)
  show ?case
  proof (cases "P x")
    case True
    then show ?thesis by (cases i) auto
  next
    case False
    show ?thesis
    proof (cases i)
      case 0
      with False show ?thesis by simp
    next
      case (Suc j)
      have "(\<forall>k<Suc j. \<not> P ((x # xs) ! k)) \<longleftrightarrow> (\<forall>k<j. \<not> P (xs ! k))"
        using False by (auto simp: less_Suc_eq_0_disj)
      with False Suc Cons.IH [of j] show ?thesis by auto
    qed
  qed
qed


lemma first_index_exists:
  "P (xs ! i) \<Longrightarrow> i < length xs \<Longrightarrow> \<exists>j\<le>i. first_index P xs = Some j"
proof (induction xs arbitrary: i)
  case Nil
  then show ?case by simp
next
  case (Cons x xs)
  show ?case
  proof (cases "P x")
    case True
    then show ?thesis by simp
  next
    case False
    with Cons.prems obtain k where i: "i = Suc k" by (cases i) auto
    with Cons.prems have "P (xs ! k)" "k < length xs" by simp_all
    from Cons.IH [OF this] obtain j where "j \<le> k" "first_index P xs = Some j" by blast
    with False i show ?thesis by simp
  qed
qed


lemma map_eq_nth:
  assumes "map f xs = map f ys" and "k < length ys"
  shows "f (xs ! k) = f (ys ! k)"
proof -
  from assms(1) have l: "length xs = length ys" by (metis length_map)
  have "f (xs ! k) = map f xs ! k" using l assms(2) by simp
  also have "\<dots> = map f ys ! k" by (simp only: assms(1))
  also have "\<dots> = f (ys ! k)" using assms(2) by simp
  finally show ?thesis .
qed



subsection \<open>The renderer\<close>

lemma renderWindowsHTML_nonempty:
  "ws \<noteq> [] \<Longrightarrow>
   renderWindowsHTML (Some ws) =
     ascii ''<div class=\"accordion nested\">''
     @ concat (map (\<lambda>(idx, w). windowItem idx w) (enumerate 0 ws)) @ ascii ''</div>''"
  by (simp add: renderWindowsHTML_def foldl_pair_append_concat)

lemma renderWindowsHTML_at:
  assumes "i < length ws"
  shows "renderWindowsHTML (Some ws) =
     ascii ''<div class=\"accordion nested\">''
     @ concat (map (\<lambda>(idx, w). windowItem idx w) (enumerate 0 (take i ws)))
     @ windowItem i (ws ! i)
     @ concat (map (\<lambda>(idx, w). windowItem idx w) (enumerate (Suc i) (drop (Suc i) ws)))
     @ ascii ''</div>''"
proof -
  from assms have ne: "ws \<noteq> []" by auto
  have "enumerate 0 ws = enumerate 0 (take i ws @ ws ! i # drop (Suc i) ws)"
    using assms by (simp add: id_take_nth_drop [symmetric])
  also have "\<dots> = enumerate 0 (take i ws) @ (i, ws ! i) # enumerate (Suc i) (drop (Suc i) ws)"
    using assms by (simp add: enumerate_append_eq min_def)
  finally show ?thesis
    by (simp add: renderWindowsHTML_nonempty [OF ne])
qed

lemma windowTitle_label:
  "sublist (ascii ''<span>'' @ windowLabel idx w @ ascii ''</span>'') (windowTitle idx w)"
proof -
  have "windowTitle idx w =
      (ascii ''\<newline>''
       @ ascii ''        <div class=\"acc-title\">\<newline>''
       @ ascii ''          <span class=\"dot ''
       @ (if w_wa_ready w then ascii ''ok'' else ascii ''warn'')
       @ ascii ''\"></span>\<newline>''
       @ ascii ''          '')
      @ (ascii ''<span>'' @ windowLabel idx w @ ascii ''</span>'')
      @ (ascii ''\<newline>'' @ ascii ''        </div>'')"
    unfolding windowTitle_def by (simp add: ascii_def)
  then show ?thesis
    by (simp only: sublist_appendI)
qed

lemma windowItem_label:
  "sublist (ascii ''<span>'' @ windowLabel idx w @ ascii ''</span>'') (windowItem idx w)"
proof -
  obtain P S where "windowItem idx w = P @ windowTitle idx w @ S"
    unfolding windowItem_def by (metis append.assoc)
  then have "sublist (windowTitle idx w) (windowItem idx w)"
    by (simp only: sublist_appendI)
  with windowTitle_label show ?thesis
    by (rule sublist_order.order.trans)
qed

lemma renderWindowsHTML_item:
  assumes "i < length ws"
  shows "sublist (windowItem i (ws ! i)) (renderWindowsHTML (Some ws))"
proof -
  from assms have ne: "ws \<noteq> []" by auto
  from assms have "(i, ws ! i) \<in> set (enumerate 0 ws)"
    by (simp add: in_set_enumerate_eq)
  then have "sublist ((\<lambda>(idx, w). windowItem idx w) (i, ws ! i))
     (concat (map (\<lambda>(idx, w). windowItem idx w) (enumerate 0 ws)))"
    by (rule sublist_concat_member)
  then have "sublist (windowItem i (ws ! i))
     (concat (map (\<lambda>(idx, w). windowItem idx w) (enumerate 0 ws)))"
    by simp
  also have "sublist \<dots> (renderWindowsHTML (Some ws))"
    by (simp only: renderWindowsHTML_nonempty [OF ne] sublist_appendI)
  finally show ?thesis .
qed


lemma noProfilesHint_no_item: "\<not> sublist (ascii ''profile-item'') noProfilesHint"
  by code_simp

lemma noProfilesHint_no_accordion: "\<not> sublist (ascii ''accordion'') noProfilesHint"
  by code_simp


subsection \<open>The click handler\<close>



lemma rowHandler_frame:
  "length (rowHandler data key container) = length container \<and>
   map row_key (rowHandler data key container) = map row_key container \<and>
   map body_id (rowHandler data key container) = map body_id container"
  by (auto simp: rowHandler_def Let_def map_update list_update_same_conv
      querySelectorId_def first_index_Some_iff split: option.splits)


lemma clickRow_frame:
  "length (clickRow data i container) = length container \<and>
   map row_key (clickRow data i container) = map row_key container \<and>
   map body_id (clickRow data i container) = map body_id container"
  using rowHandler_frame by (simp add: clickRow_def)



lemma clicks_snoc: "clicks data (cs @ [i]) c = clickRow data i (clicks data cs c)"
  by (simp add: clicks_def)

lemma clicks_frame:
  "length (clicks data cs c) = length c \<and>
   map row_key (clicks data cs c) = map row_key c \<and>
   map body_id (clicks data cs c) = map body_id c"
proof (induction cs rule: rev_induct)
  case Nil
  show ?case by (simp add: clicks_def)
next
  case (snoc i cs)
  with clickRow_frame [of data i "clicks data cs c"] show ?case
    by (simp add: clicks_snoc)
qed

text \<open>In a panel reached by clicks from the freshly built panel, the click on any row
  gets past both early returns.\<close>

lemma mounted_rows_resolve:
  assumes "i < length (profilesOf data)"
  shows "\<exists>j prof. j \<le> i \<and>
     querySelectorId (clicks data cs (mountPanel data))
       (ascii ''body-'' @ cssSafe (row_key (clicks data cs (mountPanel data) ! i))) = Some j \<and>
     find (\<lambda>p. p_key p = row_key (clicks data cs (mountPanel data) ! i)) (profilesOf data)
       = Some prof"
proof -
  let ?c = "clicks data cs (mountPanel data)"
  let ?ps = "profilesOf data"
  note fr = clicks_frame [of data cs "mountPanel data"]
  have i0: "i < length (mountPanel data)" using assms by (simp add: mountPanel_def)
  have key: "row_key (?c ! i) = p_key (?ps ! i)"
  proof -
    have "row_key (?c ! i) = row_key (mountPanel data ! i)"
      by (rule map_eq_nth) (simp_all add: fr i0)
    then show ?thesis using assms by (simp add: mountPanel_def mountItem_def)
  qed
  have id: "body_id (?c ! i) = ascii ''body-'' @ cssSafe (p_key (?ps ! i))"
  proof -
    have "body_id (?c ! i) = body_id (mountPanel data ! i)"
      by (rule map_eq_nth) (simp_all add: fr i0)
    then show ?thesis using assms by (simp add: mountPanel_def mountItem_def)
  qed
  have "i < length ?c" using fr i0 by simp
  with id key have "\<exists>j\<le>i. querySelectorId ?c (ascii ''body-'' @ cssSafe (row_key (?c ! i))) = Some j"
    unfolding querySelectorId_def by (intro first_index_exists) simp_all
  moreover have "find (\<lambda>p. p_key p = row_key (?c ! i)) ?ps \<noteq> None"
  proof -
    have "?ps ! i \<in> set ?ps" using assms by simp
    then have "\<exists>x. x \<in> set ?ps \<and> p_key x = p_key (?ps ! i)" by blast
    then show ?thesis unfolding key by (simp add: find_None_iff)
  qed
  ultimately show ?thesis by auto
qed





lemma onToggleClick_keeps_panel:
  "panelBuilt d \<Longrightarrow>
   panel_items (onToggleClick d) = panel_items d \<and> panel_html (onToggleClick d) = panel_html d \<and>
   panelBuilt (onToggleClick d) \<and> dash_data (onToggleClick d) = dash_data d"
  by (simp add: onToggleClick_def Let_def)

lemma first_reveal_mounts_panel:
  "panel_items (onToggleClick (newDashboard data)) = mountPanel data \<and>
   panel_html (onToggleClick (newDashboard data)) = buildProfilesPanelHTML data \<and>
   panelBuilt (onToggleClick (newDashboard data))"
  by (simp add: onToggleClick_def newDashboard_def Let_def)

subsection \<open>The poller\<close>

lemma fetchAndRender_url: "METRICS_URL (fetchAndRender m outcome) = METRICS_URL m"
  by (simp add: fetchAndRender_def split: sum.splits)

lemma polls_urls: "fst (polls m outcomes) = replicate (length outcomes) (METRICS_URL m)"
  by (induction outcomes arbitrary: m) (simp_all add: fetchAndRender_url case_prod_beta)

section \<open>The claims\<close>

text \<open>
  Claim C1, as amended. For every HTTP response to the metrics GET whose status is
  outside the success range 200 to 299, the poll cycle takes the failure path: the
  \<^verbatim>\<open>try\<close> part throws the error \<^verbatim>\<open>HTTP <status>\<close>, the error hint is
  written to the live region, and \<^verbatim>\<open>renderAll\<close> is not called. The claim as written
  draws the line at 200 alone; the code tests \<^verbatim>\<open>res.ok\<close>.
\<close>

theorem non_success_status_takes_failure_path:
  assumes "status res < 200 \<or> 299 < status res"
  shows "try_block (FetchResolved res) =
           Inl (JsError (ascii ''Error'') (ascii ''HTTP '' @ show_nat (status res))) \<and>
         fetchAndRender m (FetchResolved res) =
           m\<lparr>liveEl := LiveHTML (errorHint
                 (JsError (ascii ''Error'') (ascii ''HTTP '' @ show_nat (status res))))\<rparr> \<and>
         (\<forall>data. liveEl (fetchAndRender m (FetchResolved res)) \<noteq> renderAll data)"
proof -
  from assms have "\<not> res_ok res" by (auto simp: res_ok_def)
  then have t: "try_block (FetchResolved res) =
           Inl (JsError (ascii ''Error'') (ascii ''HTTP '' @ show_nat (status res)))"
    by (simp add: try_block_def)
  then show ?thesis
    by (simp add: fetchAndRender_def renderAll_def)
qed

theorem non_success_status_takes_failure_path_witness:
  "try_block (FetchResolved \<lparr>status = 404, json = Inl (JsError (ascii ''SyntaxError'') (ascii ''x''))\<rparr>)
     = Inl (JsError (ascii ''Error'') (ascii ''HTTP 404''))"
  using non_success_status_takes_failure_path
    [of "\<lparr>status = 404, json = Inl (JsError (ascii ''SyntaxError'') (ascii ''x''))\<rparr>"]
  by (simp add: show_nat_404 ascii_def)

text \<open>
  The claim as written fails: a response with status 203 (not 200, but inside the
  success range) and a JSON body is rendered.
\<close>

theorem status_203_is_rendered:
  "status \<lparr>status = 203, json = Inr \<lparr>wa_ready = True, prof_ready = 0, prof_total = 0,
      queued_jobs = 0, running_jobs = 0, pending_targets = 0, profiles = Some []\<rparr>\<rparr> \<noteq> 200 \<and>
   try_block (FetchResolved \<lparr>status = 203, json = Inr \<lparr>wa_ready = True, prof_ready = 0,
      prof_total = 0, queued_jobs = 0, running_jobs = 0, pending_targets = 0,
      profiles = Some []\<rparr>\<rparr>) =
     Inr \<lparr>wa_ready = True, prof_ready = 0, prof_total = 0, queued_jobs = 0, running_jobs = 0,
          pending_targets = 0, profiles = Some []\<rparr> \<and>
   liveEl (fetchAndRender \<lparr>METRICS_URL = ascii ''/metrics'', liveEl = LiveHTML []\<rparr>
     (FetchResolved \<lparr>status = 203, json = Inr \<lparr>wa_ready = True, prof_ready = 0,
      prof_total = 0, queued_jobs = 0, running_jobs = 0, pending_targets = 0,
      profiles = Some []\<rparr>\<rparr>)) =
     renderAll \<lparr>wa_ready = True, prof_ready = 0, prof_total = 0, queued_jobs = 0,
          running_jobs = 0, pending_targets = 0, profiles = Some []\<rparr>"
  by (simp add: try_block_def res_ok_def fetchAndRender_def)




text \<open>
  Claim C3. The key sanitisation is total and idempotent: for every input string the
  output has one code unit per input code unit and contains only characters of
  \<^verbatim>\<open>[A-Za-z0-9_-]\<close>; sanitising twice equals sanitising once; and a string that
  already consists solely of such characters is returned unchanged.
\<close>

theorem cssSafe_total_idempotent:
  "length (cssSafe s) = length s \<and>
   list_all safe_char (cssSafe s) \<and>
   cssSafe (cssSafe s) = cssSafe s \<and>
   (list_all safe_char s \<longrightarrow> cssSafe s = s)"
  using cssSafe_all_safe [of s] cssSafe_fixes_safe [of "cssSafe s"] cssSafe_fixes_safe [of s]
  by (simp add: cssSafe_length)

theorem cssSafe_total_idempotent_witness:
  "list_all safe_char (ascii ''ab_9-Z'') \<and>
   cssSafe (ascii ''ab_9-Z'') = ascii ''ab_9-Z'' \<and>
   cssSafe (cssSafe (ascii ''a b/\<newline>'')) = cssSafe (ascii ''a b/\<newline>'')"
proof -
  have safe: "list_all safe_char (ascii ''ab_9-Z'')"
    by (simp add: ascii_def safe_char_def)
  from safe cssSafe_total_idempotent [of "ascii ''ab_9-Z''"]
    cssSafe_total_idempotent [of "ascii ''a b/\<newline>''"]
  show ?thesis by simp
qed

text \<open>
  Claim C4. On a failed poll cycle, that is a rejected \<^verbatim>\<open>fetch\<close> (network throw),
  a response whose status is not a success status, or a body that does not parse as
  JSON, the content of the live region becomes exactly the one error hint
  \<^verbatim>\<open>Metrikler alinamadi: <reason>\<close> (with the dotless i of the source), whatever the
  region held before, a dashboard included. The reason is the error's message, or its
  name when the message is empty; for a non-success status it is \<^verbatim>\<open>HTTP <status>\<close>.
\<close>

theorem failed_poll_shows_only_error:
  assumes "outcome = FetchRejected e \<or>
           (outcome = FetchResolved res \<and> \<not> res_ok res \<and>
            e = JsError (ascii ''Error'') (ascii ''HTTP '' @ show_nat (status res))) \<or>
           (outcome = FetchResolved res \<and> res_ok res \<and> json res = Inl e)"
  shows \<open>liveEl (fetchAndRender m outcome) =
           LiveHTML (ascii ''<div class="hint">Metrikler al'' @ [0x131] @ ascii ''namad''
                     @ [0x131] @ ascii '': '' @ error_text e @ ascii ''</div>'') \<and>
         METRICS_URL (fetchAndRender m outcome) = METRICS_URL m \<and>
         error_text e = (if err_message e = [] then err_name e else err_message e)\<close>
proof -
  from assms have "try_block outcome = Inl e"
    by (auto simp: try_block_def)
  then show ?thesis
    by (simp add: fetchAndRender_def errorHint_def error_text_def error_toString_def)
qed

theorem failed_poll_shows_only_error_witness:
  \<open>liveEl (fetchAndRender
      \<lparr>METRICS_URL = ascii ''/metrics'',
       liveEl = renderAll \<lparr>wa_ready = True, prof_ready = 2, prof_total = 3, queued_jobs = 5,
                  running_jobs = 1, pending_targets = 0, profiles = Some []\<rparr>\<rparr>
      (FetchResolved \<lparr>status = 500, json = Inl (JsError (ascii ''SyntaxError'') [])\<rparr>)) =
    LiveHTML (ascii ''<div class="hint">Metrikler al'' @ [0x131] @ ascii ''namad''
              @ [0x131] @ ascii '': HTTP 500</div>'')\<close>
proof -
  have "error_text (JsError (ascii ''Error'') (ascii ''HTTP '' @ show_nat 500)) = ascii ''HTTP 500''"
    by (simp add: error_text_def show_nat_500 ascii_def)
  then show ?thesis
    using failed_poll_shows_only_error
      [of "FetchResolved \<lparr>status = 500, json = Inl (JsError (ascii ''SyntaxError'') [])\<rparr>"
          "JsError (ascii ''Error'') (ascii ''HTTP '' @ show_nat 500)"
          "\<lparr>status = 500, json = Inl (JsError (ascii ''SyntaxError'') [])\<rparr>"
          "\<lparr>METRICS_URL = ascii ''/metrics'',
       liveEl = renderAll \<lparr>wa_ready = True, prof_ready = 2, prof_total = 3, queued_jobs = 5,
                  running_jobs = 1, pending_targets = 0, profiles = Some []\<rparr>\<rparr>"]
    by (simp add: res_ok_def ascii_def)
qed



text \<open>
  Claim C6. For every snapshot whose profiles sequence is empty, the panel builder
  returns the empty-state hint, the returned markup contains neither
  \<^verbatim>\<open>profile-item\<close> nor \<^verbatim>\<open>accordion\<close>, and the panel has no profile row.
\<close>

theorem empty_profiles_hint:
  assumes "profiles data = Some []"
  shows \<open>buildProfilesPanelHTML data =
           ascii ''<div class="hint">Hi'' @ [0xE7] @ ascii '' profil yok.</div>'' \<and>
         \<not> sublist (ascii ''profile-item'') (buildProfilesPanelHTML data) \<and>
         \<not> sublist (ascii ''accordion'') (buildProfilesPanelHTML data) \<and>
         mountPanel data = []\<close>
proof -
  have ps: "profilesOf data = []"
    using assms by (simp add: profilesOf_def)
  then have eq: "buildProfilesPanelHTML data = noProfilesHint"
    by (simp add: buildProfilesPanelHTML_def)
  show ?thesis
    unfolding eq using noProfilesHint_no_item noProfilesHint_no_accordion ps
    by (simp add: noProfilesHint_def mountPanel_def)
qed

theorem empty_profiles_hint_witness:
  \<open>buildProfilesPanelHTML
     \<lparr>wa_ready = True, prof_ready = 0, prof_total = 0, queued_jobs = 0, running_jobs = 0,
      pending_targets = 0, profiles = Some []\<rparr> =
   ascii ''<div class="hint">Hi'' @ [0xE7] @ ascii '' profil yok.</div>''\<close>
  using empty_profiles_hint [of "\<lparr>wa_ready = True, prof_ready = 0, prof_total = 0,
      queued_jobs = 0, running_jobs = 0, pending_targets = 0, profiles = Some []\<rparr>"]
  by simp

text \<open>
  Claim C7. In every window list, the entry at 0-based index \<open>i\<close> (1-based position
  \<open>i + 1\<close>) whose title is absent has the label \<^verbatim>\<open>Window <i + 1>\<close>: the
  rendered list is the items of the entries before it, its own item, and the items of
  the entries after it, its own item shows the label in a \<^verbatim>\<open>span\<close>, and so the
  rendered list contains \<^verbatim>\<open><span>Window <i + 1></span>\<close>. In particular, in a list
  of two entries whose first entry has no title the label of the first is
  \<^verbatim>\<open>Window 1\<close>.
\<close>

theorem window_label_fallback:
  assumes "i < length ws" and "w_title (ws ! i) = None"
  shows "windowLabel i (ws ! i) = ascii ''Window '' @ show_nat (i + 1) \<and>
         renderWindowsHTML (Some ws) =
           ascii ''<div class=\"accordion nested\">''
           @ concat (map (\<lambda>(idx, w). windowItem idx w) (enumerate 0 (take i ws)))
           @ windowItem i (ws ! i)
           @ concat (map (\<lambda>(idx, w). windowItem idx w) (enumerate (Suc i) (drop (Suc i) ws)))
           @ ascii ''</div>'' \<and>
         sublist (ascii ''<span>'' @ windowLabel i (ws ! i) @ ascii ''</span>'')
           (windowItem i (ws ! i)) \<and>
         sublist (ascii ''<span>'' @ ascii ''Window '' @ show_nat (i + 1) @ ascii ''</span>'')
           (renderWindowsHTML (Some ws)) \<and>
         (length ws = 2 \<and> i = 0 \<longrightarrow>
            sublist (ascii ''<span>Window 1</span>'') (renderWindowsHTML (Some ws)))"
proof -
  have lab: "windowLabel i (ws ! i) = ascii ''Window '' @ show_nat (i + 1)"
    using assms(2) by (simp add: windowLabel_def or_str_def)
  have "sublist (ascii ''<span>'' @ windowLabel i (ws ! i) @ ascii ''</span>'')
          (renderWindowsHTML (Some ws))"
    using windowItem_label renderWindowsHTML_item [OF assms(1)]
    by (rule sublist_order.order.trans)
  then have sub: "sublist (ascii ''<span>'' @ ascii ''Window '' @ show_nat (i + 1) @ ascii ''</span>'')
          (renderWindowsHTML (Some ws))"
    by (simp add: lab)
  have "ascii ''<span>'' @ ascii ''Window '' @ show_nat (0 + 1) @ ascii ''</span>''
        = ascii ''<span>Window 1</span>''"
    unfolding add_0 show_nat_1 by (simp add: ascii_def)
  with sub have "i = 0 \<longrightarrow> sublist (ascii ''<span>Window 1</span>'') (renderWindowsHTML (Some ws))"
    by auto
  with lab sub renderWindowsHTML_at [OF assms(1)] windowItem_label [of i "ws ! i"]
  show ?thesis by blast
qed

theorem window_label_fallback_witness:
  "sublist (ascii ''<span>Window 1</span>'')
     (renderWindowsHTML (Some
        [\<lparr>w_title = None, w_url = None, w_wa_ready = False, w_last_seen = None\<rparr>,
         \<lparr>w_title = Some (ascii ''Chat''), w_url = None, w_wa_ready = True, w_last_seen = None\<rparr>]))"
proof -
  let ?ws = "[\<lparr>w_title = None, w_url = None, w_wa_ready = False, w_last_seen = None\<rparr>,
         \<lparr>w_title = Some (ascii ''Chat''), w_url = None, w_wa_ready = True, w_last_seen = None\<rparr>]"
  have a: "0 < length ?ws" by simp
  have b: "w_title (?ws ! 0) = None" by simp
  from window_label_fallback [OF a b]
  have "length ?ws = 2 \<and> (0::nat) = 0 \<longrightarrow>
        sublist (ascii ''<span>Window 1</span>'') (renderWindowsHTML (Some ?ws))"
    by blast
  then show ?thesis by simp
qed

text \<open>
  Claim C8, as amended. The endpoint is fixed when the script starts: every poll of a
  run requests the same URL, which is \<^verbatim>\<open>/metrics\<close> when \<^verbatim>\<open>window.WPBOT\<close>
  is absent, when its property \<^verbatim>\<open>METRICS_URL\<close> is absent and when that property
  is the empty string, and is the property's value when it is a non-empty string.
\<close>

theorem metrics_url_fixed_at_startup:
  "fst (polls (startup window_WPBOT page) outcomes) =
     replicate (length outcomes) (metricsUrl window_WPBOT) \<and>
   metricsUrl None = ascii ''/metrics'' \<and>
   metricsUrl (Some (WPBOT None)) = ascii ''/metrics'' \<and>
   metricsUrl (Some (WPBOT (Some []))) = ascii ''/metrics'' \<and>
   (u \<noteq> [] \<longrightarrow> metricsUrl (Some (WPBOT (Some u))) = u)"
  by (simp add: polls_urls startup_def metricsUrl_def or_str_def)

theorem metrics_url_fixed_at_startup_witness:
  "fst (polls (startup (Some (WPBOT (Some (ascii ''/api/m'')))) (LiveHTML []))
      [FetchRejected (JsError (ascii ''TypeError'') (ascii ''Failed to fetch'')),
       FetchResolved \<lparr>status = 500, json = Inl (JsError (ascii ''SyntaxError'') [])\<rparr>]) =
   [ascii ''/api/m'', ascii ''/api/m'']"
proof -
  have ne: "ascii ''/api/m'' \<noteq> []" by (simp add: ascii_def)
  show ?thesis
    using ne metrics_url_fixed_at_startup [of "Some (WPBOT (Some (ascii ''/api/m'')))" "LiveHTML []"
      "[FetchRejected (JsError (ascii ''TypeError'') (ascii ''Failed to fetch'')),
       FetchResolved \<lparr>status = 500, json = Inl (JsError (ascii ''SyntaxError'') [])\<rparr>]"
      "ascii ''/api/m''"]
    by (simp add: numeral_2_eq_2)
qed

text \<open>
  The claim as written (a present override is always used) fails for the override
  \<^verbatim>\<open>""\<close>: it is present, and the polls request \<^verbatim>\<open>/metrics\<close>, because
  \<^verbatim>\<open>||\<close> takes the default for every falsy value.
\<close>

theorem empty_override_is_ignored:
  "fst (polls (startup (Some (WPBOT (Some []))) (LiveHTML []))
      [FetchRejected (JsError (ascii ''TypeError'') (ascii ''Failed to fetch''))]) =
   [ascii ''/metrics''] \<and> ascii ''/metrics'' \<noteq> ([] :: jsstr)"
  by (simp add: startup_def metricsUrl_def or_str_def fetchAndRender_def try_block_def ascii_def)


text \<open>
  Claim C10. A click on a profile row whose \<^verbatim>\<open>data-key\<close> matches no detail body
  of the panel, or no profile of the snapshot the panel was built from, returns early and
  leaves the panel exactly as it was: nothing is built and no class is toggled.
\<close>

theorem unmatched_row_click_is_noop:
  assumes "i < length container"
    and "querySelectorId container (ascii ''body-'' @ cssSafe (row_key (container ! i))) = None \<or>
         find (\<lambda>p. p_key p = row_key (container ! i)) (profilesOf data) = None"
  shows "clickRow data i container = container"
  using assms by (auto simp: clickRow_def rowHandler_def split: option.splits)

theorem unmatched_row_click_is_noop_witness:
  "clickRow
     \<lparr>wa_ready = True, prof_ready = 0, prof_total = 1, queued_jobs = 0, running_jobs = 0,
      pending_targets = 0,
      profiles = Some [\<lparr>p_key = ascii ''a\"b'', p_ready = False, p_path = None, p_pid = None,
                        p_last_seen = None, p_windows = None\<rparr>]\<rparr>
     0
     [\<lparr>row_key = ascii ''a'', body_id = ascii ''body-a_b'',
       body_classes = [ascii ''details-body'', ascii ''hidden''], body_html = [],
       body_builds = 0\<rparr>]
   = [\<lparr>row_key = ascii ''a'', body_id = ascii ''body-a_b'',
       body_classes = [ascii ''details-body'', ascii ''hidden''], body_html = [],
       body_builds = 0\<rparr>]"
proof -
  have q: "querySelectorId
     [\<lparr>row_key = ascii ''a'', body_id = ascii ''body-a_b'',
       body_classes = [ascii ''details-body'', ascii ''hidden''], body_html = [],
       body_builds = 0\<rparr>] (ascii ''body-'' @ cssSafe (ascii ''a'')) = None"
    by (simp add: querySelectorId_def cssSafe_def ascii_def safe_char_def)
  show ?thesis
    by (rule unmatched_row_click_is_noop) (simp_all add: q)
qed

end
